theory Spec2Isabelle
  imports Main
begin

section \<open>The Python fragment in which \<open>setup.py\<close> is written\<close>

text \<open>
  The repository is one module, \<open>setup.py\<close>: an import from \<open>setuptools\<close> and one
  expression statement, a call of \<open>setup\<close> with keyword arguments. The module is embedded
  as the list of its statements, and run by an evaluator in which every Python exception is
  an \<open>Inl\<close> value.
\<close>

datatype expr =
    Str string
  | ListE "expr list"
  | DictE "(expr \<times> expr) list"
  | Name string
  | Call expr "expr list" "(string \<times> expr) list"

datatype stmt =
    ImportFrom string "string list"
  | Expr expr
  | Assign string expr
  | FunctionDef string "string list" "stmt list"
  | ClassDef string "stmt list"
  | If expr "stmt list" "stmt list"
  | While expr "stmt list"
  | For string expr "stmt list"
  | Try "stmt list" "stmt list"
  | Raise expr

datatype builtin = Setup | FindPackages

datatype val =
    StrV string
  | ListV "val list"
  | DictV "(val \<times> val) list"
  | FunV builtin
  | NoneV

datatype error =
    NameError string
  | ModuleNotFoundError string
  | ImportError string
  | TypeError
  | SyntaxError
  | RecursionError
  | SystemExit
  | Unsupported

type_synonym attrs = "(string \<times> val) list"

text \<open>
  The state of a run: the module's global names, and the keyword arguments of every call
  of \<open>setup\<close> made so far, which is what the packaging tool receives from the module.
\<close>

record state =
  globals :: "(string \<times> val) list"
  distributions :: "attrs list"

text \<open>A Python dict keeps insertion order; storing under a key already present replaces
  the value in place.\<close>

fun dict_set :: "'k \<Rightarrow> 'v \<Rightarrow> ('k \<times> 'v) list \<Rightarrow> ('k \<times> 'v) list" where
  "dict_set k v [] = [(k, v)]"
| "dict_set k v ((k', v') # d) =
     (if k' = k then (k', v) # d else (k', v') # dict_set k v d)"

fun hashable :: "val \<Rightarrow> bool" where
  "hashable (ListV _) = False"
| "hashable (DictV _) = False"
| "hashable _ = True"

fun build_dict :: "(val \<times> val) list \<Rightarrow> (val \<times> val) list \<Rightarrow> error + val" where
  "build_dict d [] = Inr (DictV d)"
| "build_dict d ((k, v) # kvs) =
     (if hashable k then build_dict (dict_set k v d) kvs else Inl TypeError)"

text \<open>
  The module is run against the \<open>setuptools\<close> library, which is not part of the repository
  and whose behaviour depends on the machine the module is run on. A \<open>library\<close> says what
  the library does there:
  \<^item> \<open>lib_setuptools\<close>: the names that \<open>from setuptools import ...\<close> can bind, or \<open>None\<close>
    when no module of that name is found;
  \<^item> \<open>lib_find_packages\<close>: what \<open>find_packages\<close> does for a directory in the current
    directory tree: it returns the dotted names of the packages below it, or raises (a
    tree nested deeper than the recursion limit makes its directory walk raise
    \<open>RecursionError\<close>);
  \<^item> \<open>lib_setup\<close>: whether \<open>setup\<close>, given the keyword arguments, returns (\<open>None\<close>) or
    raises (it raises \<open>SystemExit\<close> when the command line names no command).
\<close>

record library =
  lib_setuptools :: "string list option"
  lib_find_packages :: "string \<Rightarrow> error + string list"
  lib_setup :: "attrs \<Rightarrow> error option"

text \<open>
  The two names the module imports. \<open>setup(**attrs)\<close> takes keyword arguments only and
  hands them to the packaging tool. \<open>find_packages(where='.', exclude=(), include=('*',))\<close>
  walks the directory \<open>where\<close>. Only its \<open>where\<close> argument is modelled; a call that passes
  \<open>exclude\<close> or \<open>include\<close> is \<open>Unsupported\<close>.
\<close>

fun find_packages_where :: "val list \<Rightarrow> attrs \<Rightarrow> error + string" where
  "find_packages_where [] [] = Inr ''.''"
| "find_packages_where [StrV w] [] = Inr w"
| "find_packages_where [] [(k, StrV w)] = (if k = ''where'' then Inr w else Inl Unsupported)"
| "find_packages_where [_] [(k, _)] = (if k = ''where'' then Inl TypeError else Inl Unsupported)"
| "find_packages_where _ _ = Inl Unsupported"

fun call_builtin ::
  "library \<Rightarrow> state \<Rightarrow> builtin \<Rightarrow> val list \<Rightarrow> attrs \<Rightarrow> error + (val \<times> state)" where
  "call_builtin L s Setup args kws =
     (if args \<noteq> [] then Inl TypeError
      else case lib_setup L kws of
        Some e \<Rightarrow> Inl e
      | None \<Rightarrow> Inr (NoneV, s\<lparr>distributions := distributions s @ [kws]\<rparr>))"
| "call_builtin L s FindPackages args kws =
     (case find_packages_where args kws of
        Inl e \<Rightarrow> Inl e
      | Inr w \<Rightarrow>
          (case lib_find_packages L w of
             Inl e \<Rightarrow> Inl e
           | Inr ps \<Rightarrow> Inr (ListV (map StrV ps), s)))"

text \<open>
  Expressions are evaluated left to right: the callee, the positional arguments, then the
  keyword arguments in the order written. The first exception ends the evaluation.
\<close>

function eval :: "library \<Rightarrow> state \<Rightarrow> expr \<Rightarrow> error + (val \<times> state)"
and eval_list :: "library \<Rightarrow> state \<Rightarrow> expr list \<Rightarrow> error + (val list \<times> state)"
and eval_items ::
  "library \<Rightarrow> state \<Rightarrow> (expr \<times> expr) list \<Rightarrow> error + ((val \<times> val) list \<times> state)"
and eval_keywords ::
  "library \<Rightarrow> state \<Rightarrow> (string \<times> expr) list \<Rightarrow> error + (attrs \<times> state)"
where
  "eval L s (Str x) = Inr (StrV x, s)"
| "eval L s (ListE es) =
     (case eval_list L s es of
        Inl e \<Rightarrow> Inl e
      | Inr (vs, s') \<Rightarrow> Inr (ListV vs, s'))"
| "eval L s (DictE items) =
     (case eval_items L s items of
        Inl e \<Rightarrow> Inl e
      | Inr (kvs, s') \<Rightarrow>
          (case build_dict [] kvs of Inl e \<Rightarrow> Inl e | Inr d \<Rightarrow> Inr (d, s')))"
| "eval L s (Name x) =
     (case map_of (globals s) x of
        None \<Rightarrow> Inl (NameError x)
      | Some v \<Rightarrow> Inr (v, s))"
| "eval L s (Call f args kws) =
     (if \<not> distinct (map fst kws) then Inl SyntaxError
      else case eval L s f of
        Inl e \<Rightarrow> Inl e
      | Inr (fv, s1) \<Rightarrow>
          (case eval_list L s1 args of
             Inl e \<Rightarrow> Inl e
           | Inr (avs, s2) \<Rightarrow>
               (case eval_keywords L s2 kws of
                  Inl e \<Rightarrow> Inl e
                | Inr (kvs, s3) \<Rightarrow>
                    (case fv of
                       FunV b \<Rightarrow> call_builtin L s3 b avs kvs
                     | _ \<Rightarrow> Inl TypeError))))"
| "eval_list L s [] = Inr ([], s)"
| "eval_list L s (e # es) =
     (case eval L s e of
        Inl err \<Rightarrow> Inl err
      | Inr (v, s1) \<Rightarrow>
          (case eval_list L s1 es of
             Inl err \<Rightarrow> Inl err
           | Inr (vs, s2) \<Rightarrow> Inr (v # vs, s2)))"
| "eval_items L s [] = Inr ([], s)"
| "eval_items L s ((k, v) # items) =
     (case eval L s k of
        Inl err \<Rightarrow> Inl err
      | Inr (kv, s1) \<Rightarrow>
          (case eval L s1 v of
             Inl err \<Rightarrow> Inl err
           | Inr (vv, s2) \<Rightarrow>
               (case eval_items L s2 items of
                  Inl err \<Rightarrow> Inl err
                | Inr (kvs, s3) \<Rightarrow> Inr ((kv, vv) # kvs, s3))))"
| "eval_keywords L s [] = Inr ([], s)"
| "eval_keywords L s ((k, e) # kws) =
     (case eval L s e of
        Inl err \<Rightarrow> Inl err
      | Inr (v, s1) \<Rightarrow>
          (case eval_keywords L s1 kws of
             Inl err \<Rightarrow> Inl err
           | Inr (kvs, s2) \<Rightarrow> Inr ((k, v) # kvs, s2)))"
  by pat_completeness auto

termination
  by (relation "measure (case_sum
        (case_sum (\<lambda>(L, s, e). size e) (\<lambda>(L, s, es). size_list size es))
        (case_sum (\<lambda>(L, s, items). size_list (size_prod size size) items)
                  (\<lambda>(L, s, kws). size_list (size_prod (\<lambda>_. 0) size) kws)))") auto

text \<open>
  The namespace of the \<open>setuptools\<close> module, as far as the module uses it. The import
  raises \<open>ModuleNotFoundError\<close> when the library has no such module, and \<open>ImportError\<close>
  for a name the module found does not have (another module of that name shadowing it).
\<close>

definition setuptools_module :: "(string \<times> val) list" where
  "setuptools_module = [(''setup'', FunV Setup), (''find_packages'', FunV FindPackages)]"

fun import_names :: "(string \<times> val) list \<Rightarrow> string list \<Rightarrow> state \<Rightarrow> error + state" where
  "import_names m [] s = Inr s"
| "import_names m (x # xs) s =
     (case map_of m x of
        None \<Rightarrow> Inl (ImportError x)
      | Some v \<Rightarrow> import_names m xs (s\<lparr>globals := dict_set x v (globals s)\<rparr>))"

fun exec_stmt :: "library \<Rightarrow> state \<Rightarrow> stmt \<Rightarrow> error + state" where
  "exec_stmt L s (ImportFrom m xs) =
     (if m = ''setuptools'' then
        (case lib_setuptools L of
           None \<Rightarrow> Inl (ModuleNotFoundError m)
         | Some names \<Rightarrow>
             import_names (filter (\<lambda>b. fst b \<in> set names) setuptools_module) xs s)
      else Inl (ModuleNotFoundError m))"
| "exec_stmt L s (Expr e) =
     (case eval L s e of Inl err \<Rightarrow> Inl err | Inr (_, s') \<Rightarrow> Inr s')"
| "exec_stmt L s (Assign x e) =
     (case eval L s e of
        Inl err \<Rightarrow> Inl err
      | Inr (v, s') \<Rightarrow> Inr (s'\<lparr>globals := dict_set x v (globals s')\<rparr>))"
| "exec_stmt L s _ = Inl Unsupported"

fun exec_module :: "library \<Rightarrow> state \<Rightarrow> stmt list \<Rightarrow> error + state" where
  "exec_module L s [] = Inr s"
| "exec_module L s (st # sts) =
     (case exec_stmt L s st of Inl err \<Rightarrow> Inl err | Inr s' \<Rightarrow> exec_module L s' sts)"

section \<open>The module \<open>setup.py\<close>\<close>

definition setup_py :: "stmt list" where
  "setup_py =
     [ImportFrom ''setuptools'' [''setup'', ''find_packages''],
      Expr (Call (Name ''setup'') []
        [(''name'', Str ''remoroo-core''),
         (''version'', Str ''0.1.2''),
         (''packages'', Call (Name ''find_packages'') [] [(''where'', Str ''src'')]),
         (''package_dir'', DictE [(Str '''', Str ''src'')]),
         (''install_requires'', ListE [Str ''pydantic>=2.0.0''])])]"

text \<open>A run of the module against a library, from the empty state.\<close>

definition run_in :: "library \<Rightarrow> error + state" where
  "run_in L = exec_module L \<lparr>globals = [], distributions = []\<rparr> setup_py"

text \<open>
  The library in working order: \<open>setuptools\<close> is installed, \<open>find_packages\<close> returns, for
  every directory, the packages \<open>fp\<close> gives for it, and \<open>setup\<close> returns. \<open>run fp\<close> is the
  run of the module against it: what the module declares when nothing in the library
  fails, in a directory tree where \<open>find_packages\<close> behaves as \<open>fp\<close>.
\<close>

definition returning :: "(string \<Rightarrow> string list) \<Rightarrow> library" where
  "returning fp =
     \<lparr>lib_setuptools = Some [''setup'', ''find_packages''],
      lib_find_packages = (\<lambda>w. Inr (fp w)),
      lib_setup = (\<lambda>a. None)\<rparr>"

definition run :: "(string \<Rightarrow> string list) \<Rightarrow> error + state" where
  "run fp = run_in (returning fp)"

text \<open>
  \<open>declared fp k\<close> is the value of keyword \<open>k\<close> in each call of \<open>setup\<close> the module makes,
  in order, when the module is run in a directory tree where \<open>find_packages\<close> behaves as
  \<open>fp\<close>; \<open>None\<close> stands for a keyword the call does not pass.
\<close>

definition declared :: "(string \<Rightarrow> string list) \<Rightarrow> string \<Rightarrow> error + val option list" where
  "declared fp k =
     (case run fp of
        Inl err \<Rightarrow> Inl err
      | Inr s \<Rightarrow> Inr (map (\<lambda>a. map_of a k) (distributions s)))"

text \<open>The keyword arguments, as written, of the top-level calls of \<open>setup\<close>.\<close>

fun setup_calls :: "stmt list \<Rightarrow> (string \<times> expr) list list" where
  "setup_calls [] = []"
| "setup_calls (Expr (Call (Name f) args kws) # sts) =
     (if f = ''setup'' then kws # setup_calls sts else setup_calls sts)"
| "setup_calls (_ # sts) = setup_calls sts"

section \<open>The text of the module\<close>

text \<open>A literal is a string, or a list or dict display of literals.\<close>

fun is_literal :: "expr \<Rightarrow> bool" where
  "is_literal (Str _) = True"
| "is_literal (ListE es) = list_all is_literal es"
| "is_literal (DictE items) =
     list_all (\<lambda>item. is_literal (fst item) \<and> is_literal (snd item)) items"
| "is_literal (Name _) = False"
| "is_literal (Call _ _ _) = False"

text \<open>Statements that define a function, a class or a variable, and statements that
  branch, loop, raise or handle.\<close>

fun defines_name :: "stmt \<Rightarrow> bool" where
  "defines_name (FunctionDef _ _ _) = True"
| "defines_name (ClassDef _ _) = True"
| "defines_name (Assign _ _) = True"
| "defines_name _ = False"

fun control_flow :: "stmt \<Rightarrow> bool" where
  "control_flow (If _ _ _) = True"
| "control_flow (While _ _) = True"
| "control_flow (For _ _ _) = True"
| "control_flow (Try _ _) = True"
| "control_flow (Raise _) = True"
| "control_flow _ = False"





section \<open>Requirement strings\<close>

text \<open>
  An entry of \<open>install_requires\<close> is a requirement string, which the installer's
  \<open>packaging\<close> library reads as a distribution name followed by a version clause. That
  library is not part of the repository; the reading below covers the form
  \<open>name op version\<close> with one comparison operator and a release version of dotted numbers;
  any other string (extras, markers, several clauses, white space) is not parsed
  (\<open>None\<close>). Release versions compare number by number, a missing number counting as 0.
\<close>

definition is_digit :: "char \<Rightarrow> bool" where
  "is_digit c = (c \<in> set ''0123456789'')"

definition is_alnum :: "char \<Rightarrow> bool" where
  "is_alnum c =
     (c \<in> set ''abcdefghijklmnopqrstuvwxyzABCDEFGHIJKLMNOPQRSTUVWXYZ0123456789'')"

definition is_ident_char :: "char \<Rightarrow> bool" where
  "is_ident_char c = (is_alnum c \<or> c \<in> set ''._-'')"

definition is_op_char :: "char \<Rightarrow> bool" where
  "is_op_char c = (c \<in> set ''=~!<>'')"

text \<open>Python's \<open>s.split(c)\<close>: the pieces of \<open>s\<close> between the occurrences of \<open>c\<close>. The
  result always has a first piece, so the branch for an empty result is never taken.\<close>

fun split_on :: "char \<Rightarrow> string \<Rightarrow> string list" where
  "split_on c [] = [[]]"
| "split_on c (x # xs) =
     (if x = c then [] # split_on c xs
      else (case split_on c xs of
              [] \<Rightarrow> [[x]]
            | w # ws \<Rightarrow> (x # w) # ws))"

definition str_to_nat :: "string \<Rightarrow> nat option" where
  "str_to_nat ds =
     (if ds \<noteq> [] \<and> list_all is_digit ds
      then Some (foldl (\<lambda>n c. 10 * n + (of_char c - 48)) 0 ds)
      else None)"

definition parse_version :: "string \<Rightarrow> nat list option" where
  "parse_version s = those (map str_to_nat (split_on CHR ''.'' s))"

datatype cmp = GE | GT | LE | LT | EQ | NE

definition parse_op :: "string \<Rightarrow> cmp option" where
  "parse_op s =
     (if s = ''>='' then Some GE
      else if s = ''>'' then Some GT
      else if s = ''<='' then Some LE
      else if s = ''<'' then Some LT
      else if s = ''=='' then Some EQ
      else if s = ''!='' then Some NE
      else None)"

record requirement =
  req_name :: string
  req_op :: cmp
  req_version :: "nat list"

definition parse_requirement :: "string \<Rightarrow> requirement option" where
  "parse_requirement s =
     (let name = takeWhile is_ident_char s;
          rest = dropWhile is_ident_char s
      in if name \<noteq> [] \<and> is_alnum (hd name) \<and> (is_alnum (last name) \<or> last name = CHR ''_'')
         then (case parse_op (takeWhile is_op_char rest) of
                 None \<Rightarrow> None
               | Some c \<Rightarrow>
                   (case parse_version (dropWhile is_op_char rest) of
                      None \<Rightarrow> None
                    | Some v \<Rightarrow> Some \<lparr>req_name = name, req_op = c, req_version = v\<rparr>))
         else None)"

fun version_le :: "nat list \<Rightarrow> nat list \<Rightarrow> bool" where
  "version_le [] ys = True"
| "version_le (x # xs) [] = (x = 0 \<and> version_le xs [])"
| "version_le (x # xs) (y # ys) = (x < y \<or> (x = y \<and> version_le xs ys))"

definition admits :: "requirement \<Rightarrow> nat list \<Rightarrow> bool" where
  "admits r v =
     (case req_op r of
        GE \<Rightarrow> version_le (req_version r) v
      | GT \<Rightarrow> \<not> version_le v (req_version r)
      | LE \<Rightarrow> version_le v (req_version r)
      | LT \<Rightarrow> \<not> version_le (req_version r) v
      | EQ \<Rightarrow> version_le (req_version r) v \<and> version_le v (req_version r)
      | NE \<Rightarrow> \<not> (version_le (req_version r) v \<and> version_le v (req_version r)))"

fun requirement_of :: "val \<Rightarrow> requirement option" where
  "requirement_of (StrV s) = parse_requirement s"
| "requirement_of _ = None"

section \<open>Where a package's directory is\<close>

text \<open>
  The build resolves the directory of a package from \<open>package_dir\<close> with
  \<open>build_py.get_package_dir\<close>, a function of the build library and not of the repository:
  the dotted name is split, the longest leading part that is a key of
  \<open>package_dir\<close> is replaced by its directory, the entry of the root package \<open>""\<close> being
  the fallback, and the parts are joined with \<open>os.path.join\<close>.
\<close>

text \<open>Python's \<open>'.'.join(path)\<close>.\<close>

fun dot_join :: "string list \<Rightarrow> string" where
  "dot_join [] = []"
| "dot_join [x] = x"
| "dot_join (x # y # ys) = x @ ''.'' @ dot_join (y # ys)"

text \<open>\<open>os.path.join(a, *p)\<close> on POSIX: a part that starts with \<open>/\<close> discards what came
  before it; otherwise one \<open>/\<close> separates the parts.\<close>

definition startswith_sep :: "string \<Rightarrow> bool" where
  "startswith_sep b = (case b of [] \<Rightarrow> False | c # _ \<Rightarrow> c = CHR ''/'')"

definition join_step :: "string \<Rightarrow> string \<Rightarrow> string" where
  "join_step path b =
     (if startswith_sep b then b
      else if path = [] \<or> last path = CHR ''/'' then path @ b
      else path @ ''/'' @ b)"

definition os_path_join :: "string \<Rightarrow> string list \<Rightarrow> string" where
  "os_path_join a p = foldl join_step a p"

function package_dir_loop ::
  "(string \<times> string) list \<Rightarrow> string list \<Rightarrow> string list \<Rightarrow> string" where
  "package_dir_loop pd path tail =
     (if path \<noteq> [] then
        (case map_of pd (dot_join path) of
           None \<Rightarrow> package_dir_loop pd (butlast path) (last path # tail)
         | Some pdir \<Rightarrow> os_path_join pdir tail)
      else
        (case map_of pd '''' of
           Some pdir \<Rightarrow> os_path_join pdir tail
         | None \<Rightarrow> (case tail of [] \<Rightarrow> '''' | t # ts \<Rightarrow> os_path_join t ts)))"
  by pat_completeness auto

termination
  by (relation "measure (\<lambda>(pd, path, tail). length path)") auto

definition get_package_dir :: "(string \<times> string) list \<Rightarrow> string \<Rightarrow> string" where
  "get_package_dir pd package =
     (let path = split_on CHR ''.'' package
      in if pd = [] then (case path of [] \<Rightarrow> '''' | a # p \<Rightarrow> os_path_join a p)
         else package_dir_loop pd path [])"

text \<open>The \<open>package_dir\<close> argument as the build reads it: a dict from package names to
  directories.\<close>

fun str_pairs :: "(val \<times> val) list \<Rightarrow> (string \<times> string) list option" where
  "str_pairs [] = Some []"
| "str_pairs ((StrV k, StrV v) # d) = map_option (Cons (k, v)) (str_pairs d)"
| "str_pairs _ = None"

fun package_dir_of :: "val \<Rightarrow> (string \<times> string) list option" where
  "package_dir_of (DictV d) = str_pairs d"
| "package_dir_of _ = None"

text \<open>A package name as \<open>find_packages\<close> produces it: not empty, and free of the path
  separator (it is made of directory names joined by dots).\<close>

definition package_name :: "string \<Rightarrow> bool" where
  "package_name p = (p \<noteq> [] \<and> CHR ''/'' \<notin> set p)"

section \<open>Directory trees\<close>


definition remoroo_tree :: "string \<Rightarrow> string list" where
  "remoroo_tree w = (if w = ''src'' then [''remoroo_core'', ''remoroo_core.models''] else [])"


section \<open>The run of the module\<close>

lemma run_in_setup_py:
  "run_in L =
     (case lib_setuptools L of
        None \<Rightarrow> Inl (ModuleNotFoundError ''setuptools'')
      | Some names \<Rightarrow>
          if ''setup'' \<notin> set names then Inl (ImportError ''setup'')
          else if ''find_packages'' \<notin> set names then Inl (ImportError ''find_packages'')
          else (case lib_find_packages L ''src'' of
                  Inl e \<Rightarrow> Inl e
                | Inr ps \<Rightarrow>
                    (case lib_setup L
                       [(''name'', StrV ''remoroo-core''),
                        (''version'', StrV ''0.1.2''),
                        (''packages'', ListV (map StrV ps)),
                        (''package_dir'', DictV [(StrV '''', StrV ''src'')]),
                        (''install_requires'', ListV [StrV ''pydantic>=2.0.0''])] of
                       Some e \<Rightarrow> Inl e
                     | None \<Rightarrow>
                         Inr \<lparr>globals =
                                [(''setup'', FunV Setup), (''find_packages'', FunV FindPackages)],
                              distributions =
                                [[(''name'', StrV ''remoroo-core''),
                                  (''version'', StrV ''0.1.2''),
                                  (''packages'', ListV (map StrV ps)),
                                  (''package_dir'', DictV [(StrV '''', StrV ''src'')]),
                                  (''install_requires'',
                                   ListV [StrV ''pydantic>=2.0.0''])]]\<rparr>)))"
  by (simp add: run_in_def setup_py_def setuptools_module_def
      split: option.splits sum.splits)

lemma run_setup_py:
  "run fp = Inr \<lparr>globals = [(''setup'', FunV Setup), (''find_packages'', FunV FindPackages)],
     distributions =
       [[(''name'', StrV ''remoroo-core''),
         (''version'', StrV ''0.1.2''),
         (''packages'', ListV (map StrV (fp ''src''))),
         (''package_dir'', DictV [(StrV '''', StrV ''src'')]),
         (''install_requires'', ListV [StrV ''pydantic>=2.0.0''])]]\<rparr>"
  by (simp add: run_def returning_def run_in_setup_py)

lemma setup_calls_setup_py:
  "setup_calls setup_py =
     [[(''name'', Str ''remoroo-core''),
       (''version'', Str ''0.1.2''),
       (''packages'', Call (Name ''find_packages'') [] [(''where'', Str ''src'')]),
       (''package_dir'', DictE [(Str '''', Str ''src'')]),
       (''install_requires'', ListE [Str ''pydantic>=2.0.0''])]]"
  by (simp add: setup_py_def)

section \<open>Facts about requirement strings and package directories\<close>

lemma parse_pydantic:
  "parse_requirement ''pydantic>=2.0.0'' =
     Some \<lparr>req_name = ''pydantic'', req_op = GE, req_version = [2, 0, 0]\<rparr>"
  by (simp add: parse_requirement_def is_ident_char_def is_alnum_def is_op_char_def
      parse_op_def parse_version_def str_to_nat_def is_digit_def)

lemma split_on_nonempty: "split_on c s \<noteq> []"
  by (induction s) (auto split: list.splits)

lemma split_on_single_empty: "split_on c s = [[]] \<longleftrightarrow> s = []"
  by (cases s) (auto simp: split_on_nonempty split: list.splits)

lemma dot_join_empty: "dot_join path = [] \<longleftrightarrow> path = [] \<or> path = [[]]"
  by (induction path rule: dot_join.induct) auto

lemma join_step_after_empty: "join_step (join_step ''src'' []) t = join_step ''src'' t"
  by (simp add: join_step_def startswith_sep_def)

lemma os_path_join_skip_empty:
  "tail \<noteq> [] \<Longrightarrow> os_path_join ''src'' ([] # tail) = os_path_join ''src'' tail"
  by (cases tail) (simp_all add: os_path_join_def join_step_after_empty)

lemma package_dir_loop_src:
  "path @ tail \<noteq> [[]] \<Longrightarrow>
   package_dir_loop [('''', ''src'')] path tail = os_path_join ''src'' (path @ tail)"
proof (induction path arbitrary: tail rule: rev_induct)
  case Nil
  then show ?case by simp
next
  case (snoc x xs)
  show ?case
  proof (cases "dot_join (xs @ [x]) = []")
    case True
    then have "xs = []" and "x = []"
      by (auto simp: dot_join_empty)
    moreover from this snoc.prems have "tail \<noteq> []"
      by auto
    ultimately show ?thesis
      by (simp add: os_path_join_skip_empty)
  next
    case False
    have "xs @ x # tail \<noteq> [[]]"
      using snoc.prems by simp
    then have "package_dir_loop [('''', ''src'')] xs (x # tail) =
        os_path_join ''src'' (xs @ x # tail)"
      by (rule snoc.IH)
    with False show ?thesis
      by simp
  qed
qed

lemma get_package_dir_src:
  "p \<noteq> [] \<Longrightarrow>
   get_package_dir [('''', ''src'')] p = os_path_join ''src'' (split_on CHR ''.'' p)"
  using package_dir_loop_src [of "split_on CHR ''.'' p" "[]"]
  by (simp add: get_package_dir_def split_on_single_empty)

lemma split_on_chars: "set (concat (split_on c s)) \<subseteq> set s"
proof (induction s)
  case Nil
  then show ?case by simp
next
  case (Cons x xs)
  then show ?case
    by (cases "split_on c xs") (auto split: if_splits)
qed

lemma split_on_no_sep:
  "CHR ''/'' \<notin> set s \<Longrightarrow> list_all (\<lambda>b. \<not> startswith_sep b) (split_on c s)"
proof -
  assume a: "CHR ''/'' \<notin> set s"
  have "\<not> startswith_sep b" if "b \<in> set (split_on c s)" for b
  proof
    assume "startswith_sep b"
    then have "CHR ''/'' \<in> set b"
      by (cases b) (auto simp: startswith_sep_def)
    with that have "CHR ''/'' \<in> set (concat (split_on c s))"
      by auto
    with split_on_chars [of c s] a show False
      by auto
  qed
  then show ?thesis
    by (simp add: list_all_iff)
qed

lemma join_step_keeps_root:
  "\<not> startswith_sep b \<Longrightarrow> take 4 acc = ''src/'' \<Longrightarrow> take 4 (join_step acc b) = ''src/''"
proof -
  assume b: "\<not> startswith_sep b" and acc: "take 4 acc = ''src/''"
  have "length (take 4 acc) = 4"
    by (simp add: acc)
  then have "4 \<le> length acc"
    by simp
  with b acc show ?thesis
    by (simp add: join_step_def)
qed

lemma foldl_join_keeps_root:
  "list_all (\<lambda>b. \<not> startswith_sep b) segs \<Longrightarrow> take 4 acc = ''src/'' \<Longrightarrow>
   take 4 (foldl join_step acc segs) = ''src/''"
  by (induction segs arbitrary: acc) (simp_all add: join_step_keeps_root)

lemma os_path_join_under_src:
  "segs \<noteq> [] \<Longrightarrow> list_all (\<lambda>b. \<not> startswith_sep b) segs \<Longrightarrow>
   take 4 (os_path_join ''src'' segs) = ''src/''"
proof (cases segs)
  case Nil
  assume "segs \<noteq> []"
  with Nil show ?thesis by simp
next
  case (Cons b bs)
  assume "list_all (\<lambda>b. \<not> startswith_sep b) segs"
  with Cons have b: "\<not> startswith_sep b" and bs: "list_all (\<lambda>b. \<not> startswith_sep b) bs"
    by simp_all
  from b have "take 4 (join_step ''src'' b) = ''src/''"
    by (simp add: join_step_def)
  with bs have "take 4 (foldl join_step (join_step ''src'' b) bs) = ''src/''"
    by (rule foldl_join_keeps_root)
  with Cons show ?thesis
    by (simp add: os_path_join_def)
qed

lemma get_package_dir_under_src:
  "p \<noteq> [] \<Longrightarrow> CHR ''/'' \<notin> set p \<Longrightarrow>
   take 4 (get_package_dir [('''', ''src'')] p) = ''src/''"
  by (simp add: get_package_dir_src os_path_join_under_src split_on_nonempty split_on_no_sep)

section \<open>Name, version and source layout\<close>

text \<open>
  C2. The package name declared by the manifest is the string \<open>remoroo-core\<close>: the module
  makes one call of \<open>setup\<close>, and its \<open>name\<close> is that string, whatever the directory tree.
\<close>

theorem declared_name:
  "declared fp ''name'' = Inr [Some (StrV ''remoroo-core'')]"
  by (simp add: declared_def run_setup_py)

text \<open>
  C3. The version string declared by the manifest is \<open>0.1.2\<close>.
\<close>

theorem declared_version:
  "declared fp ''version'' = Inr [Some (StrV ''0.1.2'')]"
  by (simp add: declared_def run_setup_py)

text \<open>
  C4. The manifest declares the source root to be the directory \<open>src\<close> (the root package
  \<open>""\<close> is mapped to it), and package discovery searches that directory: the \<open>packages\<close>
  argument is written as \<open>find_packages(where="src")\<close>, and its value is what
  \<open>find_packages\<close> returns for \<open>src\<close>.
\<close>

theorem declared_source_root:
  "declared fp ''package_dir'' = Inr [Some (DictV [(StrV '''', StrV ''src'')])] \<and>
   map (\<lambda>kws. map_of kws ''packages'') (setup_calls setup_py) =
     [Some (Call (Name ''find_packages'') [] [(''where'', Str ''src'')])] \<and>
   declared fp ''packages'' = Inr [Some (ListV (map StrV (fp ''src'')))]"
  by (simp add: declared_def run_setup_py setup_calls_setup_py)

text \<open>
  C8. The call of \<open>setup\<close> passes exactly the five keyword arguments \<open>name\<close>, \<open>version\<close>,
  \<open>packages\<close>, \<open>package_dir\<close> and \<open>install_requires\<close>, as written and as received, and
  declares no entry points, extras, classifiers or Python version constraint.
\<close>

theorem setup_keywords_exactly_five:
  "map (map fst) (setup_calls setup_py) =
     [[''name'', ''version'', ''packages'', ''package_dir'', ''install_requires'']] \<and>
   (\<exists>s. run fp = Inr s \<and>
      map (map fst) (distributions s) =
        [[''name'', ''version'', ''packages'', ''package_dir'', ''install_requires'']]) \<and>
   declared fp ''entry_points'' = Inr [None] \<and>
   declared fp ''extras_require'' = Inr [None] \<and>
   declared fp ''classifiers'' = Inr [None] \<and>
   declared fp ''python_requires'' = Inr [None]"
  by (simp add: declared_def run_setup_py setup_calls_setup_py)

section \<open>The declared dependency\<close>

text \<open>
  C1. The dependency set declared by the manifest has exactly one entry, and that entry is
  constrained to a minimum version of 2.0.0: the one call of \<open>setup\<close> receives a list
  \<open>install_requires\<close> of one requirement, whose clause is \<open>>= 2.0.0\<close>, so that it admits
  exactly the versions from 2.0.0 on. No other dependency keyword (\<open>setup_requires\<close>,
  \<open>extras_require\<close>, \<open>tests_require\<close>) is passed.
\<close>

theorem single_dependency_minimum_version:
  "\<exists>s a vs r.
     run fp = Inr s \<and> distributions s = [a] \<and>
     map_of a ''install_requires'' = Some (ListV vs) \<and> length vs = 1 \<and>
     map requirement_of vs = [Some r] \<and>
     req_op r = GE \<and> req_version r = [2, 0, 0] \<and>
     admits r v = version_le [2, 0, 0] v \<and>
     map_of a ''setup_requires'' = None \<and>
     map_of a ''extras_require'' = None \<and>
     map_of a ''tests_require'' = None"
  by (simp add: run_setup_py parse_pydantic admits_def)

text \<open>
  C9. The single declared dependency is exactly the requirement string
  \<open>pydantic>=2.0.0\<close>, and the distribution it names is \<open>pydantic\<close>.
\<close>

theorem dependency_is_pydantic:
  "declared fp ''install_requires'' = Inr [Some (ListV [StrV ''pydantic>=2.0.0''])] \<and>
   map_option req_name (requirement_of (StrV ''pydantic>=2.0.0'')) = Some ''pydantic''"
  by (simp add: declared_def run_setup_py parse_pydantic)

section \<open>The shape of the module\<close>

text \<open>
  C5. The authored program is a single top-level call of \<open>setup\<close>, after the import of
  \<open>setup\<close> and \<open>find_packages\<close>; it defines no function, class or variable and has no
  branch or loop. Its arguments are keyword arguments with literal values, with one
  exception: \<open>packages\<close> is not a literal but the call \<open>find_packages(where="src")\<close>,
  whose own argument is a literal.
\<close>

theorem single_setup_call_shape:
  "\<exists>kws. setup_py =
       [ImportFrom ''setuptools'' [''setup'', ''find_packages''],
        Expr (Call (Name ''setup'') [] kws)] \<and>
     setup_calls setup_py = [kws] \<and>
     filter (\<lambda>kw. \<not> is_literal (snd kw)) kws =
       [(''packages'', Call (Name ''find_packages'') [] [(''where'', Str ''src'')])] \<and>
     is_literal (Str ''src'') \<and>
     filter defines_name setup_py = [] \<and>
     filter control_flow setup_py = []"
  by (simp add: setup_py_def)

text \<open>
  C5, as stated, fails: the arguments of the call of \<open>setup\<close> are not all literals.
\<close>

theorem arguments_not_all_literal:
  "map (list_all (is_literal \<circ> snd)) (setup_calls setup_py) = [False]"
  by (simp add: setup_py_def)

section \<open>Errors\<close>



section \<open>Dependence on the directory tree\<close>



section \<open>Discovery root and package directory\<close>

text \<open>
  C10. The package-directory mapping and the discovery root agree: \<open>package_dir\<close> maps
  the root package \<open>""\<close> to \<open>src\<close>, the directory in which \<open>find_packages\<close> is asked
  to search, so every discovered package resolves under the single root \<open>src\<close>: its
  directory is \<open>src\<close> joined with the parts of its dotted name, and begins with \<open>src/\<close>.
\<close>

theorem discovered_packages_under_src:
  assumes "list_all package_name (fp ''src'')"
  shows "\<exists>s a d pd.
     run fp = Inr s \<and> distributions s = [a] \<and>
     map_of a ''package_dir'' = Some d \<and> package_dir_of d = Some pd \<and>
     map_of pd '''' = Some ''src'' \<and>
     map_of a ''packages'' = Some (ListV (map StrV (fp ''src''))) \<and>
     map (get_package_dir pd) (fp ''src'') =
       map (\<lambda>p. os_path_join ''src'' (split_on CHR ''.'' p)) (fp ''src'') \<and>
     list_all (\<lambda>p. take 4 (get_package_dir pd p) = ''src/'') (fp ''src'')"
proof -
  have "get_package_dir [('''', ''src'')] p = os_path_join ''src'' (split_on CHR ''.'' p)"
    if "p \<in> set (fp ''src'')" for p
    using that assms by (simp add: list_all_iff package_name_def get_package_dir_src)
  moreover have "take 4 (get_package_dir [('''', ''src'')] p) = ''src/''"
    if "p \<in> set (fp ''src'')" for p
    using that assms by (simp add: list_all_iff package_name_def get_package_dir_under_src)
  ultimately show ?thesis
    by (simp add: run_setup_py list_all_iff)
qed

theorem discovered_packages_under_src_witness:
  "list_all package_name (remoroo_tree ''src'') \<and>
   map (get_package_dir [('''', ''src'')]) (remoroo_tree ''src'') =
     [''src/remoroo_core'', ''src/remoroo_core/models'']"
proof -
  have h: "list_all package_name (remoroo_tree ''src'')"
    by (simp add: remoroo_tree_def package_name_def)
  show ?thesis
    using h discovered_packages_under_src [of remoroo_tree, OF h]
    by (auto simp: run_setup_py remoroo_tree_def os_path_join_def join_step_def
        startswith_sep_def)
qed

end
